theory Spec2Isabelle
  imports Main "HOL-Library.Word" "HOL-Library.Sublist"
begin

unbundle bit_operations_syntax

section \<open>OAuth 1 signature validation (validator.go)\<close>

text \<open>
  A shallow embedding of \<^verbatim>\<open>validator.go\<close> of package \<^verbatim>\<open>oauth1\<close>:
  \<^verbatim>\<open>newProviderRequest\<close>, \<^verbatim>\<open>checkMandatoryParams\<close>,
  \<^verbatim>\<open>providerRequest.checkSignature\<close> and \<^verbatim>\<open>ValidateSignature\<close>.

  Go strings are byte strings; they are modelled by \<^typ>\<open>string\<close>, whose characters are
  bytes. A Go \<^verbatim>\<open>map[string]string\<close> is a map \<^typ>\<open>string \<rightharpoonup> string\<close>. A Go function
  returning \<^verbatim>\<open>(T, error)\<close> returns a pair whose second component is
  \<^typ>\<open>'e option\<close> (\<^term>\<open>None\<close> is \<^verbatim>\<open>nil\<close>) where the source can return both a value
  and an error, and a sum where exactly one of them is meaningful.
\<close>

subsection \<open>Errors\<close>

text \<open>
  Error values. \<^verbatim>\<open>fmt.Errorf(format, args...)\<close> is kept as the format string with its
  arguments, unformatted. The package-level variable \<^verbatim>\<open>errSignatureMismatch\<close> is one
  value, created once; it is a constructor of its own, so that it differs from every error
  built later, also from one with the same message. \<^verbatim>\<open>*strconv.NumError\<close> carries its
  fields \<^verbatim>\<open>Func\<close>, \<^verbatim>\<open>Num\<close>, \<^verbatim>\<open>Err\<close>; \<^verbatim>\<open>url.EscapeError\<close> carries the offending
  text. Errors made by the external collaborators are values of the same type.
\<close>

datatype numerr = ErrSyntax | ErrRange

datatype error =
    errSignatureMismatch
  | Errorf string "fmtarg list"
  | NumError string string numerr
  | EscapeError string
and fmtarg =
    ArgString string
  | ArgInt int
  | ArgError error

subsection \<open>The standard library functions the file calls\<close>

type_synonym byte = "8 word"

text \<open>\<^verbatim>\<open>strings.Split(s, ",")\<close>: one piece more than there are commas.\<close>

fun Split_comma :: "string \<Rightarrow> string list" where
  "Split_comma [] = [[]]"
| "Split_comma (c # cs) =
     (if c = CHR '','' then [] # Split_comma cs
      else (case Split_comma cs of
              [] \<Rightarrow> [[c]]
            | p # ps \<Rightarrow> (c # p) # ps))"

text \<open>\<^verbatim>\<open>strings.Join(elems, sep)\<close>.\<close>

fun Join :: "string list \<Rightarrow> string \<Rightarrow> string" where
  "Join [] sep = []"
| "Join [x] sep = x"
| "Join (x # y # ys) sep = x @ sep @ Join (y # ys) sep"

text \<open>
  \<^verbatim>\<open>strings.ToLower\<close> on ASCII text: the letters A to Z are mapped to a to z, every other
  byte is kept. (On text with bytes from 0x80 on, Go maps Unicode code points; the header
  prefix and the scheme constant it is compared with are ASCII.)
\<close>

definition ToLower_char :: "char \<Rightarrow> char" where
  "ToLower_char c =
     (if (65::int) \<le> of_char c \<and> of_char c \<le> (90::int) then char_of (of_char c + (32::int)) else c)"

definition ToLower :: "string \<Rightarrow> string" where
  "ToLower s = map ToLower_char s"

text \<open>
  \<^verbatim>\<open>strconv.ParseInt(s, 10, 64)\<close>. An optional sign, then \<^verbatim>\<open>ParseUint\<close> on the rest: every
  byte must be a decimal digit (an underscore is only legal with base 0), the empty string
  is a syntax error, and the loop stops with a range error as soon as the accumulated value
  leaves 64 bits. The signed result must lie in \<open>-2^63 .. 2^63 - 1\<close>.
\<close>

definition isdigit :: "char \<Rightarrow> bool" where
  "isdigit c \<longleftrightarrow> (48::int) \<le> of_char c \<and> of_char c \<le> (57::int)"

fun ParseUint_loop :: "string \<Rightarrow> int \<Rightarrow> numerr + int" where
  "ParseUint_loop [] n = Inr n"
| "ParseUint_loop (c # cs) n =
     (if \<not> isdigit c then Inl ErrSyntax
      else let n1 = n * 10 + (of_char c - 48)
           in if n1 > 2 ^ 64 - 1 then Inl ErrRange else ParseUint_loop cs n1)"

definition ParseUint :: "string \<Rightarrow> numerr + int" where
  "ParseUint s = (if s = [] then Inl ErrSyntax else ParseUint_loop s 0)"

definition ParseInt :: "string \<Rightarrow> error + int" where
  "ParseInt s0 =
     (if s0 = [] then Inl (NumError ''ParseInt'' s0 ErrSyntax)
      else
        let neg = (hd s0 = CHR ''-'');
            s = (if hd s0 = CHR ''+'' \<or> hd s0 = CHR ''-'' then tl s0 else s0)
        in case ParseUint s of
             Inl e \<Rightarrow> Inl (NumError ''ParseInt'' s0 e)
           | Inr un \<Rightarrow>
               if \<not> neg \<and> un \<ge> 2 ^ 63 then Inl (NumError ''ParseInt'' s0 ErrRange)
               else if neg \<and> un > 2 ^ 63 then Inl (NumError ''ParseInt'' s0 ErrRange)
               else Inr (if neg then - un else un))"

text \<open>
  \<^verbatim>\<open>url.PathUnescape\<close>: a first pass checks that every \<^verbatim>\<open>%\<close> is followed by two
  hexadecimal digits and fails with \<^verbatim>\<open>EscapeError\<close> of at most three bytes from the
  offending \<^verbatim>\<open>%\<close> on; a second pass replaces each \<^verbatim>\<open>%XY\<close> by its byte (a \<^verbatim>\<open>+\<close> is kept
  in a path segment).
\<close>

definition ishex :: "char \<Rightarrow> bool" where
  "ishex c \<longleftrightarrow>
     ((48::int) \<le> of_char c \<and> of_char c \<le> (57::int)) \<or>
     ((97::int) \<le> of_char c \<and> of_char c \<le> (102::int)) \<or>
     ((65::int) \<le> of_char c \<and> of_char c \<le> (70::int))"

definition unhex :: "char \<Rightarrow> int" where
  "unhex c =
     (if (48::int) \<le> of_char c \<and> of_char c \<le> (57::int) then of_char c - 48
      else if (97::int) \<le> of_char c \<and> of_char c \<le> (102::int) then of_char c - 97 + 10
      else if (65::int) \<le> of_char c \<and> of_char c \<le> (70::int) then of_char c - 65 + 10
      else 0)"

fun unescape_check :: "string \<Rightarrow> error option" where
  "unescape_check [] = None"
| "unescape_check (c # cs) =
     (if c = CHR ''%'' then
        (case cs of
           h1 # h2 # rest \<Rightarrow>
             if ishex h1 \<and> ishex h2 then unescape_check rest
             else Some (EscapeError (take 3 (c # cs)))
         | _ \<Rightarrow> Some (EscapeError (take 3 (c # cs))))
      else unescape_check cs)"

fun unescape_decode :: "string \<Rightarrow> string" where
  "unescape_decode [] = []"
| "unescape_decode (c # cs) =
     (if c = CHR ''%'' then
        (case cs of
           h1 # h2 # rest \<Rightarrow> char_of (unhex h1 * 16 + unhex h2) # unescape_decode rest
         | _ \<Rightarrow> [c])
      else c # unescape_decode cs)"

definition PathUnescape :: "string \<Rightarrow> string \<times> error option" where
  "PathUnescape s =
     (case unescape_check s of
        Some err \<Rightarrow> ([], Some err)
      | None \<Rightarrow> (unescape_decode s, None))"

subsection \<open>The pattern of one Authorization header parameter\<close>

text \<open>
  \<^verbatim>\<open>authorizationHeaderParamPattern\<close> is the regular expression
  \<^verbatim>\<open>^\s*([^=]+)="?(\S*?)"?\s*$\<close>. Go's \<^verbatim>\<open>regexp\<close> returns the match a backtracking
  search finds first: a greedy repetition tries to take one more character before it tries
  to stop, a lazy one tries to stop first. The pattern is a sequence of character classes,
  each under one quantifier, so a matcher for such sequences is enough. It returns the text
  matched by every node, in order. The pattern is anchored at both ends: the match starts
  at offset 0 and the empty node list matches the empty rest only.
\<close>

datatype quant = QOne | QOpt | QStar | QPlus | QStarLazy

type_synonym node = "quant \<times> (char \<Rightarrow> bool)"

fun matchNodes :: "node list \<Rightarrow> string \<Rightarrow> string list option" where
  "matchNodes [] s = (if s = [] then Some [] else None)"
| "matchNodes ((QOne, p) # ns) [] = None"
| "matchNodes ((QOne, p) # ns) (c # s) =
     (if p c then map_option ((#) [c]) (matchNodes ns s) else None)"
| "matchNodes ((QOpt, p) # ns) [] = map_option ((#) []) (matchNodes ns [])"
| "matchNodes ((QOpt, p) # ns) (c # s) =
     (if p c then
        (case matchNodes ns s of
           Some gs \<Rightarrow> Some ([c] # gs)
         | None \<Rightarrow> map_option ((#) []) (matchNodes ns (c # s)))
      else map_option ((#) []) (matchNodes ns (c # s)))"
| "matchNodes ((QStar, p) # ns) [] = map_option ((#) []) (matchNodes ns [])"
| "matchNodes ((QStar, p) # ns) (c # s) =
     (if p c then
        (case matchNodes ((QStar, p) # ns) s of
           Some (g # gs) \<Rightarrow> Some ((c # g) # gs)
         | _ \<Rightarrow> map_option ((#) []) (matchNodes ns (c # s)))
      else map_option ((#) []) (matchNodes ns (c # s)))"
| "matchNodes ((QPlus, p) # ns) [] = None"
| "matchNodes ((QPlus, p) # ns) (c # s) =
     (if p c then
        (case matchNodes ((QStar, p) # ns) s of
           Some (g # gs) \<Rightarrow> Some ((c # g) # gs)
         | _ \<Rightarrow> None)
      else None)"
| "matchNodes ((QStarLazy, p) # ns) [] = map_option ((#) []) (matchNodes ns [])"
| "matchNodes ((QStarLazy, p) # ns) (c # s) =
     (case matchNodes ns (c # s) of
        Some gs \<Rightarrow> Some ([] # gs)
      | None \<Rightarrow>
          if p c then
            (case matchNodes ((QStarLazy, p) # ns) s of
               Some (g # gs) \<Rightarrow> Some ((c # g) # gs)
             | _ \<Rightarrow> None)
          else None)"

text \<open>\<^verbatim>\<open>\s\<close> is tab, line feed, form feed, carriage return and space.\<close>

definition isSpace :: "char \<Rightarrow> bool" where
  "isSpace c \<longleftrightarrow> of_char c \<in> {9, 10, 12, 13, 32 :: int}"

definition authorizationHeaderParamPattern :: "node list" where
  "authorizationHeaderParamPattern =
     [(QStar, isSpace),
      (QPlus, \<lambda>c. c \<noteq> CHR ''=''),
      (QOne, \<lambda>c. c = CHR ''=''),
      (QOpt, \<lambda>c. c = CHR 0x22),
      (QStarLazy, \<lambda>c. \<not> isSpace c),
      (QOpt, \<lambda>c. c = CHR 0x22),
      (QStar, isSpace)]"

text \<open>
  \<^verbatim>\<open>authorizationHeaderParamPattern.FindStringSubmatch\<close>: \<^verbatim>\<open>nil\<close> without a match,
  else the whole match followed by the two groups (nodes 1 and 4 of the pattern).
\<close>

definition FindStringSubmatch :: "string \<Rightarrow> string list option" where
  "FindStringSubmatch s =
     map_option (\<lambda>gs. [concat gs, gs ! 1, gs ! 4]) (matchNodes authorizationHeaderParamPattern s)"

subsection \<open>Requests, parameters and what the package declares elsewhere\<close>

text \<open>
  The part of \<^verbatim>\<open>*http.Request\<close> the file reads is the header; the other fields are
  there for the collaborators, which receive the request. \<^verbatim>\<open>Header.Get\<close> returns the
  first value stored under the key, or the empty string (the key constant is taken in
  canonical form).
\<close>

record request =
  Method :: string
  URL :: string
  Header :: "string \<rightharpoonup> string list"
  Body :: string

definition Header_Get :: "request \<Rightarrow> string \<Rightarrow> string" where
  "Header_Get r key =
     (case Header r key of
        None \<Rightarrow> []
      | Some [] \<Rightarrow> []
      | Some (v # vs) \<Rightarrow> v)"

type_synonym params = "string \<rightharpoonup> string"

text \<open>Reading a Go map at a key it lacks returns the zero value, the empty string.\<close>

definition index_map :: "params \<Rightarrow> string \<Rightarrow> string" where
  "index_map m k = (case m k of None \<Rightarrow> [] | Some v \<Rightarrow> v)"

text \<open>
  The constants and the two functions that \<^verbatim>\<open>validator.go\<close> uses and that the package
  declares in its other files are parameters of the model. \<^verbatim>\<open>collectParameters\<close> may
  read the request body, so it acts on the state \<^typ>\<open>'s\<close> of the world outside this file.
\<close>

record 's oauth1_pkg =
  authorizationHeaderParam :: string
  authorizationPrefix :: string
  oauthConsumerKeyParam :: string
  oauthNonceParam :: string
  oauthSignatureParam :: string
  oauthSignatureMethodParam :: string
  oauthTimestampParam :: string
  oauthTokenParam :: string
  oauthVersionParam :: string
  defaultOauthVersion :: string
  collectParameters :: "request \<Rightarrow> params \<Rightarrow> 's \<Rightarrow> (params \<times> error option) \<times> 's"
  signatureBase :: "request \<Rightarrow> params \<Rightarrow> string"

text \<open>
  A \<^verbatim>\<open>Signer\<close> is its method \<^verbatim>\<open>Sign(key, message)\<close>; a \<^verbatim>\<open>nil\<close> Signer is
  \<^term>\<open>None\<close>. \<^verbatim>\<open>ClientStorage\<close> is the interface the caller implements; its methods
  act on the state \<^typ>\<open>'s\<close> too (the nonce store). The context argument is left to the
  implementations. Collaborators are total: one that panics or never returns is outside
  the model.
\<close>

type_synonym 's Signer = "string \<Rightarrow> string \<Rightarrow> 's \<Rightarrow> (string \<times> error option) \<times> 's"

record 's ClientStorage =
  GetSigner :: "string \<Rightarrow> string \<Rightarrow> request \<Rightarrow> 's \<Rightarrow> ('s Signer option \<times> error option) \<times> 's"
  ValidateNonce :: "string \<Rightarrow> string \<Rightarrow> int \<Rightarrow> request \<Rightarrow> 's \<Rightarrow> error option \<times> 's"

text \<open>
  The world a call runs in: the collaborators' state, and a log of the calls made to them,
  oldest first. The log is not part of the program; it records the order of the calls so
  that claims about what is called, and when, can be stated.
\<close>

datatype call =
    Called_collectParameters
  | Called_ValidateNonce string string int
  | Called_GetSigner string string
  | Called_signatureBase
  | Called_Sign string string

record 's world =
  storage :: 's
  calls :: "call list"

definition called :: "call \<Rightarrow> 's \<Rightarrow> 's world \<Rightarrow> 's world" where
  "called c s w = \<lparr>storage = s, calls = calls w @ [c]\<rparr>"

text \<open>A call of this file either returns its \<^verbatim>\<open>error\<close> result or panics.\<close>

datatype outcome = Returns "error option" | Panics

subsection \<open>providerRequest and newProviderRequest\<close>

record providerRequest =
  req :: request
  oauthParams :: params
  signatureToVerify :: string
  signatureMethod :: string
  timestamp :: int
  clientKey :: string
  nonce :: string

text \<open>
  Lines 63 to 69: the body of the loop over the comma-separated pairs of the header. A
  pair that does not match the pattern and a value that does not unescape are errors;
  otherwise the pair yields a name and its decoded value.
\<close>

definition parsePair :: "string \<Rightarrow> error + (string \<times> string)" where
  "parsePair pair =
     (case FindStringSubmatch pair of
        None \<Rightarrow> Inl (Errorf ''Invalid Authorization header'' [])
      | Some match \<Rightarrow>
          (case PathUnescape (match ! 2) of
             (val, None) \<Rightarrow> Inr (match ! 1, val)
           | (val, Some err) \<Rightarrow> Inl err))"

text \<open>Lines 62 to 70: the loop. It returns at the first pair in error.\<close>

fun parsePairs :: "string list \<Rightarrow> params \<Rightarrow> error + params" where
  "parsePairs [] authParams = Inr authParams"
| "parsePairs (pair # pairs) authParams =
     (case parsePair pair of
        Inl err \<Rightarrow> Inl err
      | Inr (name, val) \<Rightarrow> parsePairs pairs (authParams(name \<mapsto> val)))"

text \<open>Lines 56 to 72: the parameters of the Authorization header.\<close>

definition headerParams :: "'s oauth1_pkg \<Rightarrow> request \<Rightarrow> error + params" where
  "headerParams D r =
     (let authParams = Map.empty;
          authHeader = Header_Get r (authorizationHeaderParam D)
      in if length authHeader > length (authorizationPrefix D) then
           (let authHeaderPrefix = ToLower (take (length (authorizationPrefix D)) authHeader)
            in if authHeaderPrefix = ToLower (authorizationPrefix D) then
                 (let authHeaderSuffix = drop (length (authorizationPrefix D)) authHeader
                  in parsePairs (Split_comma authHeaderSuffix) authParams)
               else Inr authParams)
         else Inr authParams)"

text \<open>Lines 103 to 117.\<close>

fun missing_loop :: "params \<Rightarrow> string list \<Rightarrow> string list \<Rightarrow> string list" where
  "missing_loop ps [] missingParams = missingParams"
| "missing_loop ps (param # rest) missingParams =
     (if ps param = None then missing_loop ps rest (missingParams @ [param])
      else missing_loop ps rest missingParams)"

definition mandatoryParams :: "'s oauth1_pkg \<Rightarrow> string list" where
  "mandatoryParams D =
     [oauthSignatureParam D, oauthConsumerKeyParam D, oauthNonceParam D,
      oauthTimestampParam D, oauthSignatureMethodParam D]"

definition checkMandatoryParams :: "'s oauth1_pkg \<Rightarrow> params \<Rightarrow> error option" where
  "checkMandatoryParams D ps =
     (let missingParams = missing_loop ps (mandatoryParams D) []
      in if length missingParams > 0 then
           Some (Errorf ''missing required oauth params %v''
                   [ArgString (Join missingParams '', '')])
         else if ps (oauthTokenParam D) \<noteq> None then
           Some (Errorf ''token signature validation not implemented'' [])
         else None)"

text \<open>Lines 77 to 100: the checks on the collected parameters.\<close>

definition guardParams :: "'s oauth1_pkg \<Rightarrow> request \<Rightarrow> params \<Rightarrow> error + providerRequest" where
  "guardParams D r allParams0 =
     (case checkMandatoryParams D allParams0 of
        Some err \<Rightarrow> Inl err
      | None \<Rightarrow>
          (let sig = index_map allParams0 (oauthSignatureParam D);
               allParams = allParams0(oauthSignatureParam D := None)
           in case ParseInt (index_map allParams (oauthTimestampParam D)) of
                Inl err \<Rightarrow> Inl (Errorf ''unable to parse timestamp: %v'' [ArgError err])
              | Inr ts \<Rightarrow>
                  if ts \<le> 0 then Inl (Errorf ''invalid timestamp %v'' [ArgInt ts])
                  else
                    (let preq =
                           \<lparr>req = r, oauthParams = allParams, signatureToVerify = sig,
                            signatureMethod = index_map allParams (oauthSignatureMethodParam D),
                            timestamp = ts,
                            clientKey = index_map allParams (oauthConsumerKeyParam D),
                            nonce = index_map allParams (oauthNonceParam D)\<rparr>
                     in case allParams (oauthVersionParam D) of
                          Some version \<Rightarrow>
                            if version \<noteq> defaultOauthVersion D then
                              Inl (Errorf ''incorrect oauth version %v'' [ArgString version])
                            else Inr preq
                        | None \<Rightarrow> Inr preq)))"

text \<open>
  Lines 56 to 76: the header parameters, merged by \<^verbatim>\<open>collectParameters\<close> with the
  parameters the request carries elsewhere.
\<close>

definition canonicalParams ::
  "'s oauth1_pkg \<Rightarrow> request \<Rightarrow> 's world \<Rightarrow> (error + params) \<times> 's world" where
  "canonicalParams D r w =
     (case headerParams D r of
        Inl err \<Rightarrow> (Inl err, w)
      | Inr authParams \<Rightarrow>
          (case collectParameters D r authParams (storage w) of
             ((allParams, err), s) \<Rightarrow>
               (let w1 = called Called_collectParameters s w
                in case err of
                     Some e \<Rightarrow> (Inl e, w1)
                   | None \<Rightarrow> (Inr allParams, w1))))"

text \<open>Lines 55 to 101.\<close>

definition newProviderRequest ::
  "'s oauth1_pkg \<Rightarrow> request \<Rightarrow> 's world \<Rightarrow> (error + providerRequest) \<times> 's world" where
  "newProviderRequest D r w =
     (case canonicalParams D r w of
        (Inl err, w1) \<Rightarrow> (Inl err, w1)
      | (Inr allParams, w1) \<Rightarrow> (guardParams D r allParams, w1))"

subsection \<open>checkSignature and ValidateSignature\<close>

text \<open>
  Lines 137 to 140: the loop over the bytes of the computed signature. Reading
  \<^verbatim>\<open>sigToVerify[i]\<close> beyond the end of the string panics (\<^term>\<open>None\<close>).
\<close>

fun compare_loop :: "nat \<Rightarrow> string \<Rightarrow> string \<Rightarrow> byte \<Rightarrow> byte option" where
  "compare_loop i [] sigToVerify result = Some result"
| "compare_loop i (b # bs) sigToVerify result =
     (if i < length sigToVerify then
        compare_loop (Suc i) bs sigToVerify (result OR (of_char b XOR of_char (sigToVerify ! i)))
      else None)"

text \<open>Lines 121 to 145.\<close>

definition checkSignature ::
  "'s oauth1_pkg \<Rightarrow> providerRequest \<Rightarrow> 's Signer option \<Rightarrow> 's world \<Rightarrow> outcome \<times> 's world" where
  "checkSignature D r signer w =
     (case signer of
        None \<Rightarrow> (Returns (Some errSignatureMismatch), w)
      | Some sign \<Rightarrow>
          (let base = signatureBase D (req r) (oauthParams r);
               w1 = called Called_signatureBase (storage w) w
           in case sign [] base (storage w1) of
                ((signature, err), s) \<Rightarrow>
                  (let w2 = called (Called_Sign [] base) s w1
                   in case err of
                        Some e \<Rightarrow> (Returns (Some e), w2)
                      | None \<Rightarrow>
                          (let sigToVerify = signatureToVerify r
                           in if length sigToVerify \<noteq> length signature then
                                (Returns (Some errSignatureMismatch), w2)
                              else
                                (case compare_loop 0 signature sigToVerify 0 of
                                   None \<Rightarrow> (Panics, w2)
                                 | Some result \<Rightarrow>
                                     if result \<noteq> 0 then (Returns (Some errSignatureMismatch), w2)
                                     else (Returns None, w2))))))"

text \<open>Lines 149 to 165.\<close>

definition ValidateSignature ::
  "'s oauth1_pkg \<Rightarrow> request \<Rightarrow> 's ClientStorage \<Rightarrow> 's world \<Rightarrow> outcome \<times> 's world" where
  "ValidateSignature D r v w =
     (case newProviderRequest D r w of
        (Inl err, w1) \<Rightarrow> (Returns (Some err), w1)
      | (Inr preq, w1) \<Rightarrow>
          (case ValidateNonce v (clientKey preq) (nonce preq) (timestamp preq) r (storage w1) of
             (nonceErr, s2) \<Rightarrow>
               (let w2 = called (Called_ValidateNonce (clientKey preq) (nonce preq) (timestamp preq)) s2 w1
                in case nonceErr of
                     Some err \<Rightarrow> (Returns (Some err), w2)
                   | None \<Rightarrow>
                       (case GetSigner v (clientKey preq) (signatureMethod preq) r (storage w2) of
                          ((signer, invalidClient), s3) \<Rightarrow>
                            (let w3 = called (Called_GetSigner (clientKey preq) (signatureMethod preq)) s3 w2
                             in case checkSignature D preq signer w3 of
                                  (Panics, w4) \<Rightarrow> (Panics, w4)
                                | (Returns invalidSignature, w4) \<Rightarrow>
                                    (case invalidClient of
                                       Some e \<Rightarrow> (Returns (Some e), w4)
                                     | None \<Rightarrow> (Returns invalidSignature, w4)))))))"

subsection \<open>A concrete package, store and requests\<close>

text \<open>
  The examples run the model on an instance: the constants with the names of RFC 5849, a
  request that carries its parameters in the Authorization header only (so
  \<^verbatim>\<open>collectParameters\<close> returns the header parameters), a base string made of the method
  and the URL, signers that return a fixed signature or a fixed error, and a store that
  knows the client \<^verbatim>\<open>alice\<close> and keeps the nonces it has seen.
\<close>

definition example_pkg :: "string list oauth1_pkg" where
  "example_pkg =
     \<lparr>authorizationHeaderParam = ''Authorization'',
      authorizationPrefix = ''OAuth '',
      oauthConsumerKeyParam = ''oauth_consumer_key'',
      oauthNonceParam = ''oauth_nonce'',
      oauthSignatureParam = ''oauth_signature'',
      oauthSignatureMethodParam = ''oauth_signature_method'',
      oauthTimestampParam = ''oauth_timestamp'',
      oauthTokenParam = ''oauth_token'',
      oauthVersionParam = ''oauth_version'',
      defaultOauthVersion = ''1.0'',
      collectParameters = (\<lambda>r authParams s. ((authParams, None), s)),
      signatureBase = (\<lambda>r ps. Method r @ ''&'' @ URL r)\<rparr>"

definition fixed_Signer :: "string \<Rightarrow> string list Signer" where
  "fixed_Signer sig = (\<lambda>key message s. ((sig, None), s))"

definition failing_Signer :: "error \<Rightarrow> string list Signer" where
  "failing_Signer e = (\<lambda>key message s. (([], Some e), s))"

definition example_storage :: "string list ClientStorage" where
  "example_storage =
     \<lparr>GetSigner = (\<lambda>ck method r s.
        if ck = ''alice'' then ((Some (fixed_Signer ''good''), None), s)
        else ((Some (fixed_Signer ''dummy''), Some (Errorf ''unknown client'' [])), s)),
      ValidateNonce = (\<lambda>ck n ts r s.
        if n \<in> set s then (Some (Errorf ''nonce already used'' []), s)
        else (None, n # s))\<rparr>"

definition example_request :: "string \<Rightarrow> request" where
  "example_request h =
     \<lparr>Method = ''GET'', URL = ''http://example.com/'',
      Header = [''Authorization'' \<mapsto> [h]], Body = []\<rparr>"

definition example_world :: "string list world" where
  "example_world = \<lparr>storage = [], calls = []\<rparr>"

definition example_preq :: "string \<Rightarrow> providerRequest" where
  "example_preq sig =
     \<lparr>req = example_request [], oauthParams = Map.empty, signatureToVerify = sig,
      signatureMethod = ''PLAINTEXT'', timestamp = 1, clientKey = ''alice'', nonce = ''n1''\<rparr>"

text \<open>
  Requests for the examples: one that lacks three mandatory parameters, one that carries
  the five mandatory parameters and a token, and one that carries exactly the five, for a
  given client key and timestamp.
\<close>

definition request_missing :: request where
  "request_missing = example_request ''OAuth oauth_consumer_key=alice, oauth_timestamp=1''"

definition request_token :: "string \<Rightarrow> request" where
  "request_token ts = example_request
     (''OAuth oauth_consumer_key=alice, oauth_nonce=n1, oauth_signature=good, '' @
      ''oauth_signature_method=PLAINTEXT, oauth_token=t, oauth_timestamp='' @ ts)"

definition request_signed :: "string \<Rightarrow> string \<Rightarrow> request" where
  "request_signed ck ts = example_request
     (''OAuth oauth_consumer_key='' @ ck @ '', oauth_nonce=n1, oauth_signature=good, '' @
      ''oauth_signature_method=PLAINTEXT, oauth_timestamp='' @ ts)"

text \<open>
  The Provider Request built from \<^term>\<open>request_signed ck ''1''\<close>, for the parameter map
  \<open>m\<close> it ends with, and a world whose store has already seen the nonce \<^verbatim>\<open>n1\<close>.
\<close>

definition built_preq :: "string \<Rightarrow> params \<Rightarrow> providerRequest" where
  "built_preq ck m =
     \<lparr>req = request_signed ck ''1'', oauthParams = m, signatureToVerify = ''good'',
      signatureMethod = ''PLAINTEXT'', timestamp = 1, clientKey = ck, nonce = ''n1''\<rparr>"

definition replayed_world :: "string list world" where
  "replayed_world = \<lparr>storage = [''n1''], calls = []\<rparr>"

section \<open>Properties\<close>

subsection \<open>The library functions\<close>

text \<open>
  A parsed timestamp fits in 64 bits, so the unbounded integers of the model hold what the
  \<^verbatim>\<open>int64\<close> of the source holds, and the comparison with zero is the signed one.
\<close>

lemma ParseUint_loop_nonneg:
  "ParseUint_loop s n = Inr m \<Longrightarrow> 0 \<le> n \<Longrightarrow> 0 \<le> m"
proof (induction s arbitrary: n)
  case Nil
  then show ?case by simp
next
  case (Cons c s)
  from Cons.prems(1) have d: "isdigit c"
    by (simp split: if_splits)
  then have "0 \<le> n * 10 + (of_char c - 48)"
    using Cons.prems(2) by (simp add: isdigit_def)
  moreover from Cons.prems(1) d have "ParseUint_loop s (n * 10 + (of_char c - 48)) = Inr m"
    by (simp add: Let_def split: if_splits)
  ultimately show ?case by (rule Cons.IH [rotated])
qed

lemma ParseInt_int64:
  assumes "ParseInt s = Inr n"
  shows "- (2 ^ 63) \<le> n \<and> n < 2 ^ 63"
proof -
  from assms obtain s' un where
    u: "ParseUint_loop s' 0 = Inr un"
    and n: "n = (if hd s = CHR ''-'' then - un else un)"
    and r: "\<not> (hd s \<noteq> CHR ''-'' \<and> un \<ge> 2 ^ 63)" "\<not> (hd s = CHR ''-'' \<and> un > 2 ^ 63)"
    by (auto simp: ParseInt_def ParseUint_def Let_def split: if_splits sum.splits)
  from ParseUint_loop_nonneg [OF u] have "0 \<le> un" by simp
  with n r show ?thesis by (auto split: if_splits)
qed

text \<open>A match has the whole text and the two groups, so reading groups 1 and 2 is in range.\<close>

lemma FindStringSubmatch_length:
  "FindStringSubmatch s = Some match \<Longrightarrow> length match = 3"
  by (auto simp: FindStringSubmatch_def)

subsection \<open>The mandatory parameters and the byte comparison\<close>

lemma missing_loop_filter:
  "missing_loop ps xs acc = acc @ filter (\<lambda>p. ps p = None) xs"
  by (induction xs arbitrary: acc) auto

lemma sublist_Join: "x \<in> set xs \<Longrightarrow> sublist x (Join xs sep)"
proof (induction xs sep rule: Join.induct)
  case (1 sep)
  then show ?case by simp
next
  case (2 y sep)
  then show ?case by simp
next
  case (3 y z ys sep)
  show ?case
  proof (cases "x = y")
    case True
    then show ?thesis by simp
  next
    case False
    with 3 have "sublist x (Join (z # ys) sep)" by simp
    then have "sublist x ((y @ sep) @ Join (z # ys) sep)"
      by (simp add: sublist_append)
    then show ?thesis by simp
  qed
qed

lemma checkMandatoryParams_eq:
  "checkMandatoryParams D ps =
     (if \<exists>p \<in> set (mandatoryParams D). ps p = None then
        Some (Errorf ''missing required oauth params %v''
                [ArgString (Join (filter (\<lambda>p. ps p = None) (mandatoryParams D)) '', '')])
      else if ps (oauthTokenParam D) \<noteq> None then
        Some (Errorf ''token signature validation not implemented'' [])
      else None)"
  by (simp add: checkMandatoryParams_def missing_loop_filter filter_empty_conv Let_def)

lemma unat_of_char_byte: "unat (of_char e :: byte) = of_char e"
proof -
  have "(of_char e :: byte) = of_nat (of_char e)" by (simp add: of_nat_of_char)
  moreover have "(of_char e :: nat) < 2 ^ 8" using nat_of_char_less_256 [of e] by simp
  ultimately show ?thesis by (simp add: unat_of_nat)
qed

lemma of_char_byte_inj: "(of_char c :: byte) = of_char d \<longleftrightarrow> c = d"
proof
  assume "(of_char c :: byte) = of_char d"
  then have "unat (of_char c :: byte) = unat (of_char d :: byte)" by simp
  then have "(of_char c :: nat) = of_char d" by (simp add: unat_of_char_byte)
  then show "c = d" by simp
qed simp

lemma xor_byte_eq_0: "(x::byte) XOR y = 0 \<longleftrightarrow> x = y"
proof
  assume "x XOR y = 0"
  then have "(x XOR y) XOR y = 0 XOR y" by simp
  then show "x = y" by (simp add: xor.assoc)
qed simp

lemma compare_loop_fold:
  "i + length bs \<le> length sv \<Longrightarrow>
   compare_loop i bs sv acc =
     Some (fold (\<lambda>(b, c) a. a OR (of_char b XOR of_char c)) (zip bs (drop i sv)) acc)"
proof (induction bs arbitrary: i acc)
  case Nil
  then show ?case by simp
next
  case (Cons b bs)
  then have i: "i < length sv" by simp
  then have d: "drop i sv = sv ! i # drop (Suc i) sv"
    by (simp add: Cons_nth_drop_Suc)
  from Cons.prems have "Suc i + length bs \<le> length sv" by simp
  from Cons.IH [OF this] i d show ?case by simp
qed

lemma compare_loop_short:
  "i \<le> length sv \<Longrightarrow> length sv < i + length bs \<Longrightarrow> compare_loop i bs sv acc = None"
proof (induction bs arbitrary: i acc)
  case Nil
  then show ?case by simp
next
  case (Cons b bs)
  show ?case
  proof (cases "i < length sv")
    case True
    then have "Suc i \<le> length sv" by simp
    moreover from Cons.prems have "length sv < Suc i + length bs" by simp
    ultimately have "compare_loop (Suc i) bs sv (acc OR (of_char b XOR of_char (sv ! i))) = None"
      by (rule Cons.IH)
    with True show ?thesis by simp
  next
    case False
    then show ?thesis by simp
  qed
qed

lemma fold_or_xor_zero:
  "length bs = length cs \<Longrightarrow>
   fold (\<lambda>(b, c) a. a OR (of_char b XOR of_char c)) (zip bs cs) acc = (0::byte)
     \<longleftrightarrow> acc = 0 \<and> bs = cs"
proof (induction bs cs arbitrary: acc rule: list_induct2)
  case Nil
  then show ?case by simp
next
  case (Cons b bs c cs)
  have "fold (\<lambda>(b, c) a. a OR (of_char b XOR of_char c)) (zip (b # bs) (c # cs)) acc = (0::byte)
      \<longleftrightarrow> (acc OR (of_char b XOR of_char c) = (0::byte)) \<and> bs = cs"
    using Cons.IH [of "acc OR (of_char b XOR of_char c)"] by simp
  also have "\<dots> \<longleftrightarrow> (acc = 0 \<and> (of_char b :: byte) XOR of_char c = 0) \<and> bs = cs"
    by (simp add: or_eq_0_iff)
  also have "\<dots> \<longleftrightarrow> (acc = 0 \<and> (of_char b :: byte) = of_char c) \<and> bs = cs"
    by (simp add: xor_byte_eq_0)
  also have "\<dots> \<longleftrightarrow> acc = 0 \<and> b # bs = c # cs"
    by (auto simp: of_char_byte_inj)
  finally show ?case .
qed

lemma checkSignature_nil:
  "checkSignature D r None w = (Returns (Some errSignatureMismatch), w)"
  by (simp add: checkSignature_def)

lemma checkSignature_signer:
  assumes "sign [] (signatureBase D (req r) (oauthParams r)) (storage w) = ((signature, err), s)"
  shows "checkSignature D r (Some sign) w =
     ((case err of
         Some e \<Rightarrow> Returns (Some e)
       | None \<Rightarrow>
           if length (signatureToVerify r) \<noteq> length signature then Returns (Some errSignatureMismatch)
           else if fold (\<lambda>(b, c) a. a OR (of_char b XOR of_char c))
                     (zip signature (signatureToVerify r)) (0::byte) \<noteq> 0
                then Returns (Some errSignatureMismatch)
                else Returns None),
      \<lparr>storage = s,
       calls = calls w @ [Called_signatureBase,
                          Called_Sign [] (signatureBase D (req r) (oauthParams r))]\<rparr>)"
proof (cases err)
  case None
  show ?thesis
  proof (cases "length (signatureToVerify r) = length signature")
    case True
    then have "compare_loop 0 signature (signatureToVerify r) 0 =
        Some (fold (\<lambda>(b, c) a. a OR (of_char b XOR of_char c))
                (zip signature (signatureToVerify r)) 0)"
      using compare_loop_fold [of 0 signature "signatureToVerify r" 0] by simp
    with None True assms show ?thesis
      by (simp add: checkSignature_def called_def)
  next
    case False
    with None assms show ?thesis
      by (simp add: checkSignature_def called_def)
  qed
next
  case (Some e)
  with assms show ?thesis
    by (simp add: checkSignature_def called_def)
qed

lemma checkSignature_result:
  assumes "sign [] (signatureBase D (req r) (oauthParams r)) (storage w) = ((signature, err), s)"
  shows "fst (checkSignature D r (Some sign) w) =
     (case err of
        Some e \<Rightarrow> Returns (Some e)
      | None \<Rightarrow>
          if signatureToVerify r = signature then Returns None
          else Returns (Some errSignatureMismatch))"
proof (cases "length (signatureToVerify r) = length signature")
  case True
  then have "fold (\<lambda>(b, c) a. a OR (of_char b XOR of_char c))
              (zip signature (signatureToVerify r)) (0::byte) = 0
            \<longleftrightarrow> signature = signatureToVerify r"
    using fold_or_xor_zero [of signature "signatureToVerify r" 0] by simp
  with True show ?thesis
    by (auto simp: checkSignature_signer [where sign = sign and D = D and r = r and w = w, OF assms]
        split: option.splits)
next
  case False
  then have "signatureToVerify r \<noteq> signature" by auto
  with False show ?thesis
    by (simp add: checkSignature_signer [where sign = sign and D = D and r = r and w = w, OF assms]
        split: option.splits)
qed

lemma checkSignature_no_panic: "fst (checkSignature D r signer w) \<noteq> Panics"
proof (cases signer)
  case None
  then show ?thesis by (simp add: checkSignature_nil)
next
  case (Some sign)
  obtain signature err s where
    "sign [] (signatureBase D (req r) (oauthParams r)) (storage w) = ((signature, err), s)"
    by (metis prod.exhaust)
  from checkSignature_result [where sign = sign and D = D and r = r and w = w, OF this] Some
  show ?thesis
    by (simp split: option.splits if_splits)
qed


subsection \<open>The stages of ValidateSignature\<close>

lemma canonicalParams_calls:
  assumes "canonicalParams D r w = (Inr allParams, w1)"
  shows "calls w1 = calls w @ [Called_collectParameters]"
  using assms
  by (auto simp: canonicalParams_def called_def Let_def split: sum.splits prod.splits option.splits)

lemma newProviderRequest_guard:
  assumes "canonicalParams D r w = (Inr allParams, w1)"
  shows "newProviderRequest D r w = (guardParams D r allParams, w1)"
  using assms by (simp add: newProviderRequest_def)

lemma ValidateSignature_not_built:
  assumes "newProviderRequest D r w = (Inl e, w1)"
  shows "ValidateSignature D r v w = (Returns (Some e), w1)"
  using assms by (simp add: ValidateSignature_def)

lemma ValidateSignature_guard_error:
  assumes "canonicalParams D r w = (Inr allParams, w1)"
      and "guardParams D r allParams = Inl e"
  shows "ValidateSignature D r v w = (Returns (Some e), w1)"
  using assms by (simp add: ValidateSignature_not_built newProviderRequest_guard)

lemma guardParams_mandatory:
  assumes "checkMandatoryParams D allParams = Some e"
  shows "guardParams D r allParams = Inl e"
  using assms by (simp add: guardParams_def)

lemma ValidateSignature_nonce_error:
  assumes "newProviderRequest D r w = (Inr preq, w1)"
      and "ValidateNonce v (clientKey preq) (nonce preq) (timestamp preq) r (storage w1) = (Some e, s2)"
  shows "ValidateSignature D r v w =
           (Returns (Some e),
            called (Called_ValidateNonce (clientKey preq) (nonce preq) (timestamp preq)) s2 w1)"
  using assms by (simp add: ValidateSignature_def)

lemma ValidateSignature_checked:
  assumes "newProviderRequest D r w = (Inr preq, w1)"
      and "ValidateNonce v (clientKey preq) (nonce preq) (timestamp preq) r (storage w1) = (None, s2)"
      and "GetSigner v (clientKey preq) (signatureMethod preq) r s2 = ((signer, invalidClient), s3)"
      and "checkSignature D preq signer
             (called (Called_GetSigner (clientKey preq) (signatureMethod preq)) s3
               (called (Called_ValidateNonce (clientKey preq) (nonce preq) (timestamp preq)) s2 w1))
           = (invalidSignature, w4)"
  shows "ValidateSignature D r v w =
           ((case invalidClient of Some e \<Rightarrow> Returns (Some e) | None \<Rightarrow> invalidSignature), w4)"
proof -
  have "invalidSignature \<noteq> Panics"
    using checkSignature_no_panic [of D preq signer
        "called (Called_GetSigner (clientKey preq) (signatureMethod preq)) s3
           (called (Called_ValidateNonce (clientKey preq) (nonce preq) (timestamp preq)) s2 w1)"]
      assms(4) by simp
  then obtain res where "invalidSignature = Returns res"
    by (cases invalidSignature) auto
  with assms show ?thesis
    by (simp add: ValidateSignature_def called_def split: option.splits)
qed

subsection \<open>The header loop\<close>

lemma matchNodes_no_suffix:
  assumes "\<And>t. suffix t s \<Longrightarrow> matchNodes ns t = None"
  shows "matchNodes ((q, p) # ns) s = None"
  using assms
proof (induction s)
  case Nil
  then have "matchNodes ns [] = None" by simp
  then show ?case by (cases q) simp_all
next
  case (Cons c s)
  have here: "matchNodes ns (c # s) = None"
    using Cons.prems by simp
  have "\<And>t. suffix t s \<Longrightarrow> matchNodes ns t = None"
    using Cons.prems by (simp add: suffix_Cons)
  then have later: "matchNodes ((q, p) # ns) s = None"
    by (rule Cons.IH)
  have rest: "matchNodes ns s = None"
    using Cons.prems [of s] by (simp add: suffix_Cons)
  show ?case
  proof (cases q)
    case QOne
    with rest show ?thesis by simp
  next
    case QOpt
    with rest here show ?thesis by simp
  next
    case QStar
    with later here show ?thesis by simp
  next
    case QPlus
    have "matchNodes ((QStar, p) # ns) s = None"
      using \<open>\<And>t. suffix t s \<Longrightarrow> matchNodes ns t = None\<close>
    proof (induction s)
      case Nil
      then show ?case by simp
    next
      case (Cons d s)
      have "matchNodes ns (d # s) = None" using Cons.prems by simp
      moreover have "matchNodes ((QStar, p) # ns) s = None"
        using Cons.IH Cons.prems by (simp add: suffix_Cons)
      ultimately show ?case by simp
    qed
    with QPlus show ?thesis by simp
  next
    case QStarLazy
    with later here show ?thesis by simp
  qed
qed

lemma matchNodes_QOne_absent:
  assumes "\<forall>c \<in> set s. \<not> p c"
  shows "matchNodes ((QOne, p) # ns) s = None"
  using assms by (cases s) simp_all

lemma FindStringSubmatch_no_equals:
  assumes "CHR ''='' \<notin> set s"
  shows "FindStringSubmatch s = None"
proof -
  let ?eq = "(QOne, \<lambda>c. c = CHR ''='')"
  let ?tail = "[(QOpt, \<lambda>c. c = CHR 0x22), (QStarLazy, \<lambda>c. \<not> isSpace c),
                (QOpt, \<lambda>c. c = CHR 0x22), (QStar, isSpace)]"
  have 1: "matchNodes (?eq # ?tail) t = None" if "suffix t s" for t
  proof -
    from that assms have "\<forall>c \<in> set t. \<not> c = CHR ''=''"
      by (auto dest: set_mono_suffix)
    then show ?thesis by (rule matchNodes_QOne_absent)
  qed
  have 2: "matchNodes ((QPlus, \<lambda>c. c \<noteq> CHR ''='') # ?eq # ?tail) t = None" if "suffix t s" for t
  proof (rule matchNodes_no_suffix)
    fix u assume "suffix u t"
    with that have "suffix u s" by (rule suffix_order.trans [rotated])
    then show "matchNodes (?eq # ?tail) u = None" by (rule 1)
  qed
  have "matchNodes ((QStar, isSpace) # (QPlus, \<lambda>c. c \<noteq> CHR ''='') # ?eq # ?tail) s = None"
    by (rule matchNodes_no_suffix) (rule 2)
  then show ?thesis
    by (simp add: FindStringSubmatch_def authorizationHeaderParamPattern_def)
qed

lemma parsePair_no_match:
  "FindStringSubmatch pair = None \<Longrightarrow> parsePair pair = Inl (Errorf ''Invalid Authorization header'' [])"
  by (simp add: parsePair_def)

text \<open>
  What the loop body does with a pair that matches: the error of \<^verbatim>\<open>url.PathUnescape\<close>
  on the second group is returned as it is, and a value that unescapes is kept. So the body
  fails exactly for a pair that does not match or whose value does not unescape.
\<close>

lemma parsePair_undecodable:
  assumes "FindStringSubmatch pair = Some match"
      and "snd (PathUnescape (match ! 2)) = Some err"
  shows "parsePair pair = Inl err"
  using assms by (cases "PathUnescape (match ! 2)") (simp add: parsePair_def)

lemma parsePair_decoded:
  assumes "FindStringSubmatch pair = Some match"
      and "snd (PathUnescape (match ! 2)) = None"
  shows "parsePair pair = Inr (match ! 1, fst (PathUnescape (match ! 2)))"
  using assms by (cases "PathUnescape (match ! 2)") (simp add: parsePair_def)

lemma isl_parsePair:
  "isl (parsePair pair) \<longleftrightarrow>
     (case FindStringSubmatch pair of
        None \<Rightarrow> True
      | Some match \<Rightarrow> snd (PathUnescape (match ! 2)) \<noteq> None)"
  by (auto simp: parsePair_def split: option.splits prod.splits)

text \<open>
  A value does not unescape when it has a \<^verbatim>\<open>%\<close> that is not followed by two hexadecimal
  digits.
\<close>

lemma unescape_check_bad_escape:
  assumes "\<not> (\<exists>h1 h2 rest. ys = h1 # h2 # rest \<and> ishex h1 \<and> ishex h2)"
  shows "unescape_check (xs @ CHR ''%'' # ys) \<noteq> None"
proof (induction xs rule: length_induct)
  case (1 xs)
  have nothex: "\<not> ishex CHR ''%''"
    by (simp add: ishex_def)
  show ?case
  proof (cases xs)
    case Nil
    with assms show ?thesis
      by (cases ys; cases "tl ys") (auto split: list.splits)
  next
    case (Cons c xs')
    show ?thesis
    proof (cases "c = CHR ''%''")
      case False
      with Cons 1 show ?thesis by simp
    next
      case True
      show ?thesis
      proof (cases xs')
        case Nil
        with Cons True nothex show ?thesis by (simp split: list.splits)
      next
        case (Cons a xs'')
        note c1 = this
        show ?thesis
        proof (cases xs'')
          case Nil
          with \<open>xs = c # xs'\<close> c1 True nothex show ?thesis by simp
        next
          case (Cons b xs''')
          have "length xs''' < length xs"
            using \<open>xs = c # xs'\<close> c1 Cons by simp
          with 1 have "unescape_check (xs''' @ CHR ''%'' # ys) \<noteq> None" by blast
          with \<open>xs = c # xs'\<close> c1 Cons True show ?thesis by simp
        qed
      qed
    qed
  qed
qed

lemma PathUnescape_bad_escape:
  assumes "\<not> (\<exists>h1 h2 rest. ys = h1 # h2 # rest \<and> ishex h1 \<and> ishex h2)"
  shows "snd (PathUnescape (xs @ CHR ''%'' # ys)) \<noteq> None"
  using unescape_check_bad_escape [OF assms, of xs]
  by (auto simp: PathUnescape_def split: option.splits)

lemma parsePairs_first_error:
  assumes "find (\<lambda>p. isl (parsePair p)) pairs = Some bad"
      and "parsePair bad = Inl e"
  shows "parsePairs pairs m = Inl e"
  using assms
proof (induction pairs arbitrary: m)
  case Nil
  then show ?case by simp
next
  case (Cons p ps)
  show ?case
  proof (cases "isl (parsePair p)")
    case True
    with Cons.prems have "p = bad" by simp
    with Cons.prems show ?thesis by simp
  next
    case False
    then obtain name val where nv: "parsePair p = Inr (name, val)"
      by (cases "parsePair p") auto
    from False Cons.prems have "find (\<lambda>p. isl (parsePair p)) ps = Some bad" by simp
    from Cons.IH [OF this Cons.prems(2)] nv show ?thesis by simp
  qed
qed

lemma headerParams_pairs:
  assumes "length (authorizationPrefix D) < length (Header_Get r (authorizationHeaderParam D))"
      and "ToLower (take (length (authorizationPrefix D)) (Header_Get r (authorizationHeaderParam D)))
             = ToLower (authorizationPrefix D)"
  shows "headerParams D r =
           parsePairs (Split_comma (drop (length (authorizationPrefix D))
                         (Header_Get r (authorizationHeaderParam D)))) Map.empty"
  using assms by (simp add: headerParams_def Let_def)

lemma newProviderRequest_header_error:
  assumes "headerParams D r = Inl e"
  shows "newProviderRequest D r w = (Inl e, w)"
  using assms by (simp add: newProviderRequest_def canonicalParams_def)

lemma guardParams_timestamp:
  assumes "checkMandatoryParams D allParams = None"
      and "oauthTimestampParam D \<noteq> oauthSignatureParam D"
  shows "guardParams D r allParams =
           (case ParseInt (index_map allParams (oauthTimestampParam D)) of
              Inl pe \<Rightarrow> Inl (Errorf ''unable to parse timestamp: %v'' [ArgError pe])
            | Inr ts \<Rightarrow>
                if ts \<le> 0 then Inl (Errorf ''invalid timestamp %v'' [ArgInt ts])
                else guardParams D r allParams)"
  using assms
  by (simp add: guardParams_def index_map_def Let_def split: sum.splits)

subsection \<open>Evaluating the examples\<close>

lemmas example_defs =
  example_pkg_def example_storage_def example_request_def example_world_def example_preq_def
  fixed_Signer_def failing_Signer_def

lemmas model_defs =
  ValidateSignature_def newProviderRequest_def canonicalParams_def headerParams_def
  Header_Get_def ToLower_def ToLower_char_def parsePair_def FindStringSubmatch_def
  authorizationHeaderParamPattern_def isSpace_def PathUnescape_def guardParams_def
  checkMandatoryParams_def mandatoryParams_def index_map_def ParseInt_def ParseUint_def
  isdigit_def ishex_def unhex_def called_def checkSignature_def char_of_def

lemma built_alice:
  "\<exists>m. \<forall>w. newProviderRequest example_pkg (request_signed ''alice'' ''1'') w =
     (Inr (built_preq ''alice'' m), called Called_collectParameters (storage w) w)"
  by (simp add: model_defs example_defs request_signed_def built_preq_def)

lemma built_bob:
  "\<exists>m. \<forall>w. newProviderRequest example_pkg (request_signed ''bob'' ''1'') w =
     (Inr (built_preq ''bob'' m), called Called_collectParameters (storage w) w)"
  by (simp add: model_defs example_defs request_signed_def built_preq_def)

lemma example_signatureBase:
  "signatureBase example_pkg (req (built_preq ck m)) ps = ''GET&http://example.com/''"
  by (simp add: example_pkg_def built_preq_def request_signed_def example_request_def)

section \<open>The claims\<close>

subsection \<open>The mandatory parameters\<close>

text \<open>
  Claim C6. When the canonical parameter map of a request lacks one or more of the five
  mandatory parameters, \<^verbatim>\<open>checkMandatoryParams\<close> and with it \<^verbatim>\<open>ValidateSignature\<close>
  fail with one error, whose argument is the list of all the missing names joined by a
  comma and a space: every missing name occurs in it, not only the first.
\<close>

theorem missing_params_aggregated:
  assumes "canonicalParams D r w = (Inr allParams, w1)"
      and "\<exists>p \<in> set (mandatoryParams D). allParams p = None"
  shows "checkMandatoryParams D allParams =
           Some (Errorf ''missing required oauth params %v''
                   [ArgString (Join (filter (\<lambda>p. allParams p = None) (mandatoryParams D)) '', '')])
         \<and> ValidateSignature D r v w =
             (Returns (Some (Errorf ''missing required oauth params %v''
                   [ArgString (Join (filter (\<lambda>p. allParams p = None) (mandatoryParams D)) '', '')])),
              w1)
         \<and> (\<forall>p \<in> set (mandatoryParams D). allParams p = None \<longrightarrow>
               sublist p (Join (filter (\<lambda>p. allParams p = None) (mandatoryParams D)) '', ''))"
proof -
  have c: "checkMandatoryParams D allParams =
           Some (Errorf ''missing required oauth params %v''
                   [ArgString (Join (filter (\<lambda>p. allParams p = None) (mandatoryParams D)) '', '')])"
    using assms(2) by (simp add: checkMandatoryParams_eq)
  have v: "ValidateSignature D r v w =
             (Returns (Some (Errorf ''missing required oauth params %v''
                   [ArgString (Join (filter (\<lambda>p. allParams p = None) (mandatoryParams D)) '', '')])),
              w1)"
    by (rule ValidateSignature_guard_error [OF assms(1) guardParams_mandatory [OF c]])
  have n: "\<forall>p \<in> set (mandatoryParams D). allParams p = None \<longrightarrow>
               sublist p (Join (filter (\<lambda>p. allParams p = None) (mandatoryParams D)) '', '')"
    by (simp add: sublist_Join)
  from c v n show ?thesis by blast
qed

text \<open>
  A request with a client key and a timestamp only: the error names the three parameters
  that are missing, in the order of the check.
\<close>

theorem missing_params_aggregated_witness:
  "fst (ValidateSignature example_pkg request_missing example_storage example_world) =
     Returns (Some (Errorf ''missing required oauth params %v''
       [ArgString ''oauth_signature, oauth_nonce, oauth_signature_method'']))"
  using missing_params_aggregated [of example_pkg request_missing example_world
      "projr (fst (canonicalParams example_pkg request_missing example_world))"
      "snd (canonicalParams example_pkg request_missing example_world)" example_storage,
      THEN conjunct2, THEN conjunct1]
  by (simp add: model_defs example_defs request_missing_def)

text \<open>
  Claim C10. When the map lacks a mandatory parameter and contains the token parameter,
  \<^verbatim>\<open>checkMandatoryParams\<close> returns the error of the missing parameters. It returns the
  error of the token exactly when the five mandatory parameters are all present and the
  token parameter is present.
\<close>

theorem missing_params_before_token:
  "((\<exists>p \<in> set (mandatoryParams D). ps p = None) \<and> ps (oauthTokenParam D) \<noteq> None \<longrightarrow>
      checkMandatoryParams D ps =
        Some (Errorf ''missing required oauth params %v''
                [ArgString (Join (filter (\<lambda>p. ps p = None) (mandatoryParams D)) '', '')]))
   \<and> (checkMandatoryParams D ps = Some (Errorf ''token signature validation not implemented'' [])
        \<longleftrightarrow> (\<forall>p \<in> set (mandatoryParams D). ps p \<noteq> None) \<and> ps (oauthTokenParam D) \<noteq> None)"
  by (simp add: checkMandatoryParams_eq)

text \<open>A map with a token and a nonce only: the error lists the four missing names.\<close>

theorem missing_params_before_token_witness:
  "checkMandatoryParams example_pkg [''oauth_token'' \<mapsto> ''t'', ''oauth_nonce'' \<mapsto> ''n1''] =
     Some (Errorf ''missing required oauth params %v''
       [ArgString ''oauth_signature, oauth_consumer_key, oauth_timestamp, oauth_signature_method''])"
  using missing_params_before_token [of example_pkg
      "[''oauth_token'' \<mapsto> ''t'', ''oauth_nonce'' \<mapsto> ''n1'']", THEN conjunct1]
  by (simp add: mandatoryParams_def example_defs)

text \<open>
  Claim C8. A request whose canonical parameter map has the five mandatory parameters and
  a token parameter is rejected with the error \<^verbatim>\<open>token signature validation not
  implemented\<close>, for every store and every Signer, so also when the signature is the right
  one; the nonce is not checked and no Signer is asked for.
\<close>

theorem token_not_implemented:
  assumes "canonicalParams D r w = (Inr allParams, w1)"
      and "\<forall>p \<in> set (mandatoryParams D). allParams p \<noteq> None"
      and "allParams (oauthTokenParam D) \<noteq> None"
  shows "ValidateSignature D r v w =
           (Returns (Some (Errorf ''token signature validation not implemented'' [])), w1)
         \<and> calls w1 = calls w @ [Called_collectParameters]"
proof -
  have "checkMandatoryParams D allParams =
          Some (Errorf ''token signature validation not implemented'' [])"
    using assms(2,3) by (simp add: checkMandatoryParams_eq)
  from ValidateSignature_guard_error [OF assms(1) guardParams_mandatory [OF this]]
    canonicalParams_calls [OF assms(1)]
  show ?thesis by simp
qed

text \<open>
  The request carries the signature the client's Signer computes, and a token.
\<close>

theorem token_not_implemented_witness:
  "fst (ValidateSignature example_pkg (request_token ''1'') example_storage example_world) =
     Returns (Some (Errorf ''token signature validation not implemented'' []))"
  using token_not_implemented [of example_pkg "request_token ''1''" example_world
      "projr (fst (canonicalParams example_pkg (request_token ''1'') example_world))"
      "snd (canonicalParams example_pkg (request_token ''1'') example_world)" example_storage,
      THEN conjunct1]
  by (simp add: model_defs example_defs request_token_def)

subsection \<open>The Authorization header\<close>

text \<open>
  Claim C9, as amended. When the Authorization header is longer than the scheme prefix,
  starts with it (letter case aside) and one of its comma-separated pairs does not match
  the pattern, or matches with a second group on which \<^verbatim>\<open>url.PathUnescape\<close> returns an
  error, \<^verbatim>\<open>newProviderRequest\<close> fails with the error of the first such pair, in the order
  of the header: \<^verbatim>\<open>Invalid Authorization header\<close> when that pair does not match (a pair
  without \<^verbatim>\<open>=\<close> never matches), the very error \<^verbatim>\<open>url.PathUnescape\<close> returned
  otherwise. The world is unchanged: \<^verbatim>\<open>collectParameters\<close> is not called.
\<close>

theorem header_pair_error:
  assumes "length (authorizationPrefix D) < length (Header_Get r (authorizationHeaderParam D))"
      and "ToLower (take (length (authorizationPrefix D)) (Header_Get r (authorizationHeaderParam D)))
             = ToLower (authorizationPrefix D)"
      and "pairs = Split_comma (drop (length (authorizationPrefix D))
                     (Header_Get r (authorizationHeaderParam D)))"
      and "\<exists>p \<in> set pairs.
             (case FindStringSubmatch p of
                None \<Rightarrow> True
              | Some match \<Rightarrow> snd (PathUnescape (match ! 2)) \<noteq> None)"
  shows "\<exists>bad e.
           find (\<lambda>p. case FindStringSubmatch p of
                        None \<Rightarrow> True
                      | Some match \<Rightarrow> snd (PathUnescape (match ! 2)) \<noteq> None) pairs = Some bad
           \<and> (FindStringSubmatch bad = None \<longrightarrow> e = Errorf ''Invalid Authorization header'' [])
           \<and> (\<forall>match. FindStringSubmatch bad = Some match \<longrightarrow>
                  snd (PathUnescape (match ! 2)) = Some e)
           \<and> (CHR ''='' \<notin> set bad \<longrightarrow> FindStringSubmatch bad = None)
           \<and> newProviderRequest D r w = (Inl e, w)
           \<and> ValidateSignature D r v w = (Returns (Some e), w)"
proof -
  let ?fails = "\<lambda>p. case FindStringSubmatch p of
                        None \<Rightarrow> True
                      | Some match \<Rightarrow> snd (PathUnescape (match ! 2)) \<noteq> None"
  have same: "(\<lambda>p. isl (parsePair p)) = ?fails"
    by (rule ext) (auto simp: parsePair_def split: option.splits prod.splits)
  from assms(4) obtain bad where f: "find ?fails pairs = Some bad"
    by (cases "find ?fails pairs") (auto simp: find_None_iff)
  then have b: "?fails bad"
    by (auto simp: find_Some_iff)
  let ?e = "case FindStringSubmatch bad of
              None \<Rightarrow> Errorf ''Invalid Authorization header'' []
            | Some match \<Rightarrow> the (snd (PathUnescape (match ! 2)))"
  have e: "parsePair bad = Inl ?e"
  proof (cases "FindStringSubmatch bad")
    case None
    then show ?thesis by (simp add: parsePair_def)
  next
    case (Some match)
    with b obtain err where "snd (PathUnescape (match ! 2)) = Some err" by auto
    with Some show ?thesis
      by (cases "PathUnescape (match ! 2)") (simp add: parsePair_def)
  qed
  have k: "FindStringSubmatch bad = None \<longrightarrow> ?e = Errorf ''Invalid Authorization header'' []"
    by simp
  have d: "\<forall>match. FindStringSubmatch bad = Some match \<longrightarrow>
             snd (PathUnescape (match ! 2)) = Some ?e"
    using b by auto
  from f same have f': "find (\<lambda>p. isl (parsePair p)) pairs = Some bad" by simp
  have h: "headerParams D r = Inl ?e"
    using headerParams_pairs [OF assms(1,2)] parsePairs_first_error [OF f' e] assms(3) by simp
  have 2: "CHR ''='' \<notin> set bad \<longrightarrow> FindStringSubmatch bad = None"
    by (simp add: FindStringSubmatch_no_equals)
  have 3: "newProviderRequest D r w = (Inl ?e, w)"
    by (rule newProviderRequest_header_error [OF h])
  have 4: "ValidateSignature D r v w = (Returns (Some ?e), w)"
    by (rule ValidateSignature_not_built [OF 3])
  show ?thesis
    by (rule exI [of _ bad], rule exI [of _ "?e"])
      (intro conjI, rule f, rule k, rule d, rule 2, rule 3, rule 4)
qed

text \<open>
  A second pair without \<^verbatim>\<open>=\<close>, and a second pair whose value ends in an incomplete
  escape: each request is rejected with the error of that pair, and nothing is called.
\<close>

theorem header_pair_error_witness:
  "ValidateSignature example_pkg (example_request ''OAuth a=b,foo'') example_storage example_world
     = (Returns (Some (Errorf ''Invalid Authorization header'' [])), example_world)
   \<and> ValidateSignature example_pkg (example_request ''OAuth a=b,c=%4'') example_storage example_world
     = (Returns (Some (EscapeError ''%4'')), example_world)
   \<and> parsePair ''foo'' = Inl (Errorf ''Invalid Authorization header'' [])
   \<and> parsePair ''c=%4'' = Inl (EscapeError ''%4'')"
proof -
  let ?fails = "\<lambda>p. case FindStringSubmatch p of
                        None \<Rightarrow> True
                      | Some match \<Rightarrow> snd (PathUnescape (match ! 2)) \<noteq> None"
  have run: "\<exists>bad e.
           find ?fails [''a=b'', x] = Some bad
           \<and> (FindStringSubmatch bad = None \<longrightarrow> e = Errorf ''Invalid Authorization header'' [])
           \<and> (\<forall>match. FindStringSubmatch bad = Some match \<longrightarrow>
                  snd (PathUnescape (match ! 2)) = Some e)
           \<and> (CHR ''='' \<notin> set bad \<longrightarrow> FindStringSubmatch bad = None)
           \<and> newProviderRequest example_pkg (example_request (''OAuth a=b,'' @ x)) example_world
               = (Inl e, example_world)
           \<and> ValidateSignature example_pkg (example_request (''OAuth a=b,'' @ x)) example_storage
                example_world
               = (Returns (Some e), example_world)"
    if "x = ''foo'' \<or> x = ''c=%4''" for x
  proof (rule header_pair_error)
    show "length (authorizationPrefix example_pkg)
        < length (Header_Get (example_request (''OAuth a=b,'' @ x)) (authorizationHeaderParam example_pkg))"
      by (simp add: example_defs Header_Get_def)
    show "ToLower (take (length (authorizationPrefix example_pkg))
            (Header_Get (example_request (''OAuth a=b,'' @ x)) (authorizationHeaderParam example_pkg)))
          = ToLower (authorizationPrefix example_pkg)"
      by (simp add: example_defs Header_Get_def)
    show "[''a=b'', x] = Split_comma (drop (length (authorizationPrefix example_pkg))
            (Header_Get (example_request (''OAuth a=b,'' @ x)) (authorizationHeaderParam example_pkg)))"
      using that by (auto simp: example_defs Header_Get_def)
    show "\<exists>p \<in> set [''a=b'', x]. ?fails p"
      using that by (auto simp: model_defs)
  qed
  have foo: "find ?fails [''a=b'', ''foo''] = Some ''foo''"
    by (simp add: model_defs)
  have foo_e: "FindStringSubmatch ''foo'' = None"
    by (simp add: model_defs)
  have esc: "find ?fails [''a=b'', ''c=%4''] = Some ''c=%4''"
    by (simp add: model_defs)
  have esc_e: "FindStringSubmatch ''c=%4'' = Some [''c=%4'', ''c'', ''%4'']"
    "snd (PathUnescape ''%4'') = Some (EscapeError ''%4'')"
    by (simp_all add: model_defs)
  from run [of "''foo''"] foo foo_e
  have 1: "ValidateSignature example_pkg (example_request ''OAuth a=b,foo'') example_storage example_world
     = (Returns (Some (Errorf ''Invalid Authorization header'' [])), example_world)"
    by auto
  from run [of "''c=%4''"] esc esc_e
  have 2: "ValidateSignature example_pkg (example_request ''OAuth a=b,c=%4'') example_storage example_world
     = (Returns (Some (EscapeError ''%4'')), example_world)"
    by auto
  have 3: "parsePair ''foo'' = Inl (Errorf ''Invalid Authorization header'' [])"
    "parsePair ''c=%4'' = Inl (EscapeError ''%4'')"
    by (simp_all add: model_defs)
  from 1 2 3 show ?thesis by simp
qed

text \<open>
  The claim as stated fails when a pair whose value does not unescape comes before the pair
  that does not match: the header \<^verbatim>\<open>OAuth a=%zz,foo\<close> has the pair \<^verbatim>\<open>foo\<close>, which
  does not match, and the request is rejected with the error of \<^verbatim>\<open>url.PathUnescape\<close>,
  not with \<^verbatim>\<open>Invalid Authorization header\<close>.
\<close>

theorem header_pair_error_counterexample:
  "''foo'' \<in> set (Split_comma ''a=%zz,foo'')
   \<and> FindStringSubmatch ''foo'' = None
   \<and> newProviderRequest example_pkg (example_request ''OAuth a=%zz,foo'') example_world
       = (Inl (EscapeError ''%zz''), example_world)
   \<and> EscapeError ''%zz'' \<noteq> Errorf ''Invalid Authorization header'' []"
  by (simp add: model_defs example_defs)

subsection \<open>The timestamp\<close>

text \<open>
  Claim C7, as amended. When the timestamp parameter of the canonical parameter map does
  not parse as a decimal signed 64-bit integer, or parses to a value that is not positive,
  \<^verbatim>\<open>ValidateSignature\<close> fails, and the only call made is the one to
  \<^verbatim>\<open>collectParameters\<close>: no nonce is checked, no Signer is asked for, nothing is signed.
  When the check of the mandatory parameters and of the token passes, the error is
  \<^verbatim>\<open>unable to parse timestamp\<close> with the parse error, or \<^verbatim>\<open>invalid timestamp\<close> with
  the value; otherwise it is the error of that earlier check.
\<close>

theorem bad_timestamp_rejected:
  assumes "canonicalParams D r w = (Inr allParams, w1)"
      and "oauthTimestampParam D \<noteq> oauthSignatureParam D"
      and "ParseInt (index_map allParams (oauthTimestampParam D)) = parsed"
      and "case parsed of Inl pe \<Rightarrow> True | Inr ts \<Rightarrow> ts \<le> 0"
  shows "(\<exists>e. ValidateSignature D r v w = (Returns (Some e), w1)
            \<and> (checkMandatoryParams D allParams = None \<longrightarrow>
                 e = (case parsed of
                        Inl pe \<Rightarrow> Errorf ''unable to parse timestamp: %v'' [ArgError pe]
                      | Inr ts \<Rightarrow> Errorf ''invalid timestamp %v'' [ArgInt ts]))
            \<and> (checkMandatoryParams D allParams \<noteq> None \<longrightarrow>
                 checkMandatoryParams D allParams = Some e))
         \<and> calls w1 = calls w @ [Called_collectParameters]"
proof (cases "checkMandatoryParams D allParams")
  case None
  let ?e = "case parsed of
              Inl pe \<Rightarrow> Errorf ''unable to parse timestamp: %v'' [ArgError pe]
            | Inr ts \<Rightarrow> Errorf ''invalid timestamp %v'' [ArgInt ts]"
  have "guardParams D r allParams = Inl ?e"
    using guardParams_timestamp [OF None assms(2), of r] assms(3,4)
    by (simp split: sum.splits)
  from ValidateSignature_guard_error [OF assms(1) this] None canonicalParams_calls [OF assms(1)]
  show ?thesis by simp
next
  case (Some e)
  from ValidateSignature_guard_error [OF assms(1) guardParams_mandatory [OF Some]] Some
    canonicalParams_calls [OF assms(1)]
  show ?thesis by simp
qed

text \<open>
  A timestamp that is not a number and a negative one, in requests that are complete
  otherwise: two different errors, and \<^verbatim>\<open>collectParameters\<close> is the only call.
\<close>

theorem bad_timestamp_rejected_witness:
  "ValidateSignature example_pkg (request_signed ''alice'' ''abc'') example_storage example_world
     = (Returns (Some (Errorf ''unable to parse timestamp: %v''
                   [ArgError (NumError ''ParseInt'' ''abc'' ErrSyntax)])),
        \<lparr>storage = [], calls = [Called_collectParameters]\<rparr>)
   \<and> ValidateSignature example_pkg (request_signed ''alice'' ''-5'') example_storage example_world
     = (Returns (Some (Errorf ''invalid timestamp %v'' [ArgInt (- 5)])),
        \<lparr>storage = [], calls = [Called_collectParameters]\<rparr>)"
proof -
  let ?w1 = "\<lparr>storage = [], calls = [Called_collectParameters]\<rparr> :: string list world"
  let ?A = "canonicalParams example_pkg (request_signed ''alice'' ''abc'') example_world"
  let ?B = "canonicalParams example_pkg (request_signed ''alice'' ''-5'') example_world"
  have n: "oauthTimestampParam example_pkg \<noteq> oauthSignatureParam example_pkg"
    by (simp add: example_defs)
  have a: "?A = (Inr (projr (fst ?A)), ?w1)"
    by (simp add: model_defs example_defs request_signed_def)
  have ai: "index_map (projr (fst ?A)) (oauthTimestampParam example_pkg) = ''abc''"
    by (simp add: model_defs example_defs request_signed_def)
  have am: "checkMandatoryParams example_pkg (projr (fst ?A)) = None"
    by (simp add: model_defs example_defs request_signed_def)
  have ap: "ParseInt ''abc'' = Inl (NumError ''ParseInt'' ''abc'' ErrSyntax)"
    by (simp add: ParseInt_def ParseUint_def isdigit_def)
  have b: "?B = (Inr (projr (fst ?B)), ?w1)"
    by (simp add: model_defs example_defs request_signed_def)
  have bi: "index_map (projr (fst ?B)) (oauthTimestampParam example_pkg) = ''-5''"
    by (simp add: model_defs example_defs request_signed_def)
  have bm: "checkMandatoryParams example_pkg (projr (fst ?B)) = None"
    by (simp add: model_defs example_defs request_signed_def)
  have bp: "ParseInt ''-5'' = Inr (- 5)"
    by (simp add: ParseInt_def ParseUint_def isdigit_def)
  have 1: "ValidateSignature example_pkg (request_signed ''alice'' ''abc'') example_storage
             example_world
     = (Returns (Some (Errorf ''unable to parse timestamp: %v''
                   [ArgError (NumError ''ParseInt'' ''abc'' ErrSyntax)])), ?w1)"
    using bad_timestamp_rejected [OF a n,
        of "Inl (NumError ''ParseInt'' ''abc'' ErrSyntax)" example_storage]
      ai ap am by auto
  have 2: "ValidateSignature example_pkg (request_signed ''alice'' ''-5'') example_storage
             example_world
     = (Returns (Some (Errorf ''invalid timestamp %v'' [ArgInt (- 5)])), ?w1)"
    using bad_timestamp_rejected [OF b n, of "Inr (- 5)" example_storage]
      bi bp bm by auto
  from 1 2 show ?thesis by simp
qed

text \<open>
  The claim as stated fails for a request that has the five mandatory parameters and a
  token: with a timestamp that does not parse and with one that is zero, the error is the
  same, the one of the token, so it does not tell the two cases apart.
\<close>

theorem bad_timestamp_rejected_counterexample:
  "ParseInt ''abc'' = Inl (NumError ''ParseInt'' ''abc'' ErrSyntax)
   \<and> ParseInt ''0'' = Inr 0
   \<and> fst (ValidateSignature example_pkg (request_token ''abc'') example_storage example_world)
       = Returns (Some (Errorf ''token signature validation not implemented'' []))
   \<and> fst (ValidateSignature example_pkg (request_token ''0'') example_storage example_world)
       = Returns (Some (Errorf ''token signature validation not implemented'' []))"
  by (simp add: model_defs example_defs request_token_def)

subsection \<open>checkSignature\<close>

text \<open>
  Claim C4. With a Signer that is not nil and whose \<^verbatim>\<open>Sign\<close> succeeds,
  \<^verbatim>\<open>checkSignature\<close> compares the lengths first and reports the mismatch when they
  differ, whatever the bytes are. With equal lengths the loop runs over the whole string
  (it does not panic) and leaves the OR of the XOR of every pair of bytes; the signature is
  rejected exactly when that byte is not zero. (Entered with a candidate shorter than the
  computed signature, the loop would read out of range; it is not entered.) So the result
  is \<^verbatim>\<open>nil\<close> exactly for identical signatures, every other result is the mismatch
  error, and two signatures of equal length that differ in exactly one byte are rejected.
\<close>

theorem checkSignature_comparison:
  assumes "sign [] (signatureBase D (req r) (oauthParams r)) (storage w) = ((signature, None), s)"
  shows "fst (checkSignature D r (Some sign) w) =
           (if length (signatureToVerify r) \<noteq> length signature then Returns (Some errSignatureMismatch)
            else if fold (\<lambda>(b, c) a. a OR (of_char b XOR of_char c))
                      (zip signature (signatureToVerify r)) (0::byte) \<noteq> 0
                 then Returns (Some errSignatureMismatch)
                 else Returns None)
         \<and> (length (signatureToVerify r) = length signature \<longrightarrow>
              compare_loop 0 signature (signatureToVerify r) 0 =
                Some (fold (\<lambda>(b, c) a. a OR (of_char b XOR of_char c))
                        (zip signature (signatureToVerify r)) 0))
         \<and> (length (signatureToVerify r) < length signature \<longrightarrow>
              compare_loop 0 signature (signatureToVerify r) 0 = None)
         \<and> (fst (checkSignature D r (Some sign) w) = Returns None \<longleftrightarrow> signatureToVerify r = signature)
         \<and> (fst (checkSignature D r (Some sign) w) \<noteq> Returns None \<longrightarrow>
              fst (checkSignature D r (Some sign) w) = Returns (Some errSignatureMismatch))
         \<and> (length (signatureToVerify r) = length signature \<and>
              (\<exists>i < length signature. signatureToVerify r ! i \<noteq> signature ! i \<and>
                 (\<forall>j < length signature. j \<noteq> i \<longrightarrow> signatureToVerify r ! j = signature ! j))
              \<longrightarrow> fst (checkSignature D r (Some sign) w) = Returns (Some errSignatureMismatch))"
proof -
  note full = checkSignature_signer [where sign = sign and D = D and r = r and w = w, OF assms]
  note res = checkSignature_result [where sign = sign and D = D and r = r and w = w, OF assms]
  have 1: "fst (checkSignature D r (Some sign) w) =
           (if length (signatureToVerify r) \<noteq> length signature then Returns (Some errSignatureMismatch)
            else if fold (\<lambda>(b, c) a. a OR (of_char b XOR of_char c))
                      (zip signature (signatureToVerify r)) (0::byte) \<noteq> 0
                 then Returns (Some errSignatureMismatch)
                 else Returns None)"
    using full by simp
  have 2: "length (signatureToVerify r) = length signature \<longrightarrow>
              compare_loop 0 signature (signatureToVerify r) 0 =
                Some (fold (\<lambda>(b, c) a. a OR (of_char b XOR of_char c))
                        (zip signature (signatureToVerify r)) 0)"
    using compare_loop_fold [of 0 signature "signatureToVerify r" 0] by simp
  have short: "length (signatureToVerify r) < length signature \<longrightarrow>
              compare_loop 0 signature (signatureToVerify r) 0 = None"
    using compare_loop_short [of 0 "signatureToVerify r" signature 0] by simp
  have 3: "fst (checkSignature D r (Some sign) w) = Returns None \<longleftrightarrow> signatureToVerify r = signature"
    using res by simp
  have 4: "fst (checkSignature D r (Some sign) w) \<noteq> Returns None \<longrightarrow>
              fst (checkSignature D r (Some sign) w) = Returns (Some errSignatureMismatch)"
    using res by simp
  have 5: "length (signatureToVerify r) = length signature \<and>
              (\<exists>i < length signature. signatureToVerify r ! i \<noteq> signature ! i \<and>
                 (\<forall>j < length signature. j \<noteq> i \<longrightarrow> signatureToVerify r ! j = signature ! j))
              \<longrightarrow> fst (checkSignature D r (Some sign) w) = Returns (Some errSignatureMismatch)"
  proof
    assume "length (signatureToVerify r) = length signature \<and>
              (\<exists>i < length signature. signatureToVerify r ! i \<noteq> signature ! i \<and>
                 (\<forall>j < length signature. j \<noteq> i \<longrightarrow> signatureToVerify r ! j = signature ! j))"
    then have "signatureToVerify r \<noteq> signature" by auto
    with res show "fst (checkSignature D r (Some sign) w) = Returns (Some errSignatureMismatch)"
      by simp
  qed
  from 1 2 short 3 4 5 show ?thesis by blast
qed

text \<open>
  The identical signature is accepted; one that differs in its last byte and one that is
  shorter are rejected.
\<close>

theorem checkSignature_comparison_witness:
  "fst (checkSignature example_pkg (example_preq ''good'') (Some (fixed_Signer ''good'')) example_world)
     = Returns None
   \<and> fst (checkSignature example_pkg (example_preq ''goof'') (Some (fixed_Signer ''good'')) example_world)
     = Returns (Some errSignatureMismatch)
   \<and> fst (checkSignature example_pkg (example_preq ''goo'') (Some (fixed_Signer ''good'')) example_world)
     = Returns (Some errSignatureMismatch)"
proof -
  have s: "fixed_Signer ''good'' [] (signatureBase example_pkg (req (example_preq x)) (oauthParams (example_preq x)))
             (storage example_world) = ((''good'', None), [])" for x
    by (simp add: example_defs)
  have g: "signatureToVerify (example_preq x) = x" for x
    by (simp add: example_preq_def)
  note t = checkSignature_comparison [where sign = "fixed_Signer ''good''" and D = example_pkg
      and w = example_world, OF s]
  have 1: "fst (checkSignature example_pkg (example_preq ''good'') (Some (fixed_Signer ''good''))
             example_world) = Returns None"
    using t [of "''good''", THEN conjunct2, THEN conjunct2, THEN conjunct2, THEN conjunct1]
    by (simp add: g)
  have 2: "fst (checkSignature example_pkg (example_preq x) (Some (fixed_Signer ''good''))
             example_world) = Returns (Some errSignatureMismatch)" if "x \<noteq> ''good''" for x
    using t [of x, THEN conjunct2, THEN conjunct2, THEN conjunct2] that by (simp add: g)
  from 1 2 [of "''goof''"] 2 [of "''goo''"] show ?thesis
    by simp
qed

text \<open>
  Claim C2, as amended. A nil Signer, signatures of different lengths and signatures that
  differ in some byte all give the one value \<^verbatim>\<open>errSignatureMismatch\<close>. An error
  returned by \<^verbatim>\<open>Sign\<close> is not replaced by it: \<^verbatim>\<open>checkSignature\<close> returns that error
  itself (line 128).
\<close>

theorem checkSignature_errors:
  "fst (checkSignature D r signer w) =
     (case signer of
        None \<Rightarrow> Returns (Some errSignatureMismatch)
      | Some sign \<Rightarrow>
          (case fst (sign [] (signatureBase D (req r) (oauthParams r)) (storage w)) of
             (signature, Some e) \<Rightarrow> Returns (Some e)
           | (signature, None) \<Rightarrow>
               if signatureToVerify r = signature then Returns None
               else Returns (Some errSignatureMismatch)))"
proof (cases signer)
  case None
  then show ?thesis by (simp add: checkSignature_nil)
next
  case (Some sign)
  obtain signature err s where
    sg: "sign [] (signatureBase D (req r) (oauthParams r)) (storage w) = ((signature, err), s)"
    by (metis prod.exhaust)
  from checkSignature_result [where sign = sign and D = D and r = r and w = w, OF sg] Some sg
  show ?thesis
    by (simp split: option.splits)
qed

text \<open>A nil Signer and a candidate that is too short give the same value.\<close>

theorem checkSignature_errors_witness:
  "fst (checkSignature example_pkg (example_preq ''good'') None example_world)
     = Returns (Some errSignatureMismatch)
   \<and> fst (checkSignature example_pkg (example_preq ''goo'') (Some (fixed_Signer ''good'')) example_world)
     = Returns (Some errSignatureMismatch)"
  using checkSignature_errors [of example_pkg "example_preq ''good''" None example_world]
    checkSignature_errors [of example_pkg "example_preq ''goo''" "Some (fixed_Signer ''good'')"
      example_world]
  by (simp add: example_defs)

text \<open>
  The claim as stated fails for a Signer whose \<^verbatim>\<open>Sign\<close> returns an error: the caller
  receives that error, which is not \<^verbatim>\<open>errSignatureMismatch\<close>.
\<close>

theorem checkSignature_Sign_error_counterexample:
  "fst (checkSignature example_pkg (example_preq ''good'')
          (Some (failing_Signer (Errorf ''signing failed'' []))) example_world)
     = Returns (Some (Errorf ''signing failed'' []))
   \<and> Errorf ''signing failed'' [] \<noteq> errSignatureMismatch"
  by (simp add: checkSignature_def called_def example_defs)

text \<open>
  Claim C3, as amended. With a nil Signer \<^verbatim>\<open>checkSignature\<close> returns the mismatch at
  once: nothing is called and the world is unchanged, so the base string is not built.
  With any Signer that is not nil (also the one \<^verbatim>\<open>GetSigner\<close> returns together with an
  error for an unknown client) the base string is built and \<^verbatim>\<open>Sign\<close> is called once,
  on the empty key and that base string, whatever the outcome of the comparison.
\<close>

theorem checkSignature_work:
  "checkSignature D r None w = (Returns (Some errSignatureMismatch), w)
   \<and> calls (snd (checkSignature D r (Some sign) w)) =
       calls w @ [Called_signatureBase, Called_Sign [] (signatureBase D (req r) (oauthParams r))]"
proof -
  obtain signature err s where
    sg: "sign [] (signatureBase D (req r) (oauthParams r)) (storage w) = ((signature, err), s)"
    by (metis prod.exhaust)
  from checkSignature_signer [where sign = sign and D = D and r = r and w = w, OF sg]
  show ?thesis
    by (simp add: checkSignature_nil)
qed

text \<open>The Signer returned for an unknown client is asked to sign.\<close>

theorem checkSignature_work_witness:
  "calls (snd (checkSignature example_pkg (example_preq ''good'') (Some (fixed_Signer ''dummy''))
      example_world)) = [Called_signatureBase, Called_Sign [] ''GET&http://example.com/'']"
  using checkSignature_work [of example_pkg "example_preq ''good''" example_world
      "fixed_Signer ''dummy''"]
  by (simp add: example_defs)

text \<open>
  The claim as stated fails at the nil Signer: the base string is not built there, while it
  is built for a Signer that is not nil.
\<close>

theorem checkSignature_nil_skips_counterexample:
  "Called_signatureBase \<notin> set (calls (snd (checkSignature example_pkg (example_preq ''good'') None example_world)))
   \<and> Called_signatureBase \<in> set (calls (snd (checkSignature example_pkg (example_preq ''good'')
         (Some (fixed_Signer ''good'')) example_world)))"
  by (simp add: checkSignature_def called_def example_defs)

subsection \<open>ValidateSignature\<close>

text \<open>
  Claim C5. Once the Provider Request is built: an error of \<^verbatim>\<open>ValidateNonce\<close> is
  returned at once, and the only call made after the build is that one; otherwise an
  error of \<^verbatim>\<open>GetSigner\<close> is returned; otherwise the outcome of \<^verbatim>\<open>checkSignature\<close>
  is returned, \<^verbatim>\<open>nil\<close> when the signature is valid. \<^verbatim>\<open>checkSignature\<close> does not panic.
\<close>

theorem ValidateSignature_precedence:
  assumes "newProviderRequest D r w = (Inr preq, w1)"
      and "ValidateNonce v (clientKey preq) (nonce preq) (timestamp preq) r (storage w1) = (nonceErr, s2)"
      and "w2 = called (Called_ValidateNonce (clientKey preq) (nonce preq) (timestamp preq)) s2 w1"
      and "GetSigner v (clientKey preq) (signatureMethod preq) r s2 = ((signer, invalidClient), s3)"
      and "w3 = called (Called_GetSigner (clientKey preq) (signatureMethod preq)) s3 w2"
      and "checkSignature D preq signer w3 = (invalidSignature, w4)"
  shows "(nonceErr = Some e \<longrightarrow> ValidateSignature D r v w = (Returns (Some e), w2))
       \<and> (nonceErr = None \<and> invalidClient = Some e \<longrightarrow>
            ValidateSignature D r v w = (Returns (Some e), w4))
       \<and> (nonceErr = None \<and> invalidClient = None \<longrightarrow>
            ValidateSignature D r v w = (invalidSignature, w4))
       \<and> invalidSignature \<noteq> Panics
       \<and> calls w2 = calls w1 @ [Called_ValidateNonce (clientKey preq) (nonce preq) (timestamp preq)]"
proof -
  have 1: "nonceErr = Some e \<longrightarrow> ValidateSignature D r v w = (Returns (Some e), w2)"
    using ValidateSignature_nonce_error [OF assms(1), of v e s2] assms(2,3) by simp
  have c: "nonceErr = None \<Longrightarrow> ValidateSignature D r v w =
      ((case invalidClient of Some e \<Rightarrow> Returns (Some e) | None \<Rightarrow> invalidSignature), w4)"
    using ValidateSignature_checked [OF assms(1), of v s2 signer invalidClient s3 invalidSignature w4]
      assms(2-6) by simp
  have 2: "nonceErr = None \<and> invalidClient = Some e \<longrightarrow>
            ValidateSignature D r v w = (Returns (Some e), w4)"
    using c by simp
  have 3: "nonceErr = None \<and> invalidClient = None \<longrightarrow>
            ValidateSignature D r v w = (invalidSignature, w4)"
    using c by simp
  have 4: "invalidSignature \<noteq> Panics"
    using checkSignature_no_panic [of D preq signer w3] assms(6) by simp
  have 5: "calls w2 = calls w1 @ [Called_ValidateNonce (clientKey preq) (nonce preq) (timestamp preq)]"
    using assms(3) by (simp add: called_def)
  from 1 2 3 4 5 show ?thesis by blast
qed

text \<open>
  A valid request is accepted after the five calls; the same request in a world whose
  store has seen the nonce is rejected with the error of the nonce, and neither
  \<^verbatim>\<open>GetSigner\<close> nor \<^verbatim>\<open>Sign\<close> is called.
\<close>

theorem ValidateSignature_precedence_witness:
  "ValidateSignature example_pkg (request_signed ''alice'' ''1'') example_storage example_world =
     (Returns None,
      \<lparr>storage = [''n1''],
       calls = [Called_collectParameters, Called_ValidateNonce ''alice'' ''n1'' 1,
                Called_GetSigner ''alice'' ''PLAINTEXT'', Called_signatureBase,
                Called_Sign [] ''GET&http://example.com/'']\<rparr>)
   \<and> ValidateSignature example_pkg (request_signed ''alice'' ''1'') example_storage replayed_world =
     (Returns (Some (Errorf ''nonce already used'' [])),
      \<lparr>storage = [''n1''],
       calls = [Called_collectParameters, Called_ValidateNonce ''alice'' ''n1'' 1]\<rparr>)"
proof -
  let ?R = "request_signed ''alice'' ''1''"
  obtain m where b: "newProviderRequest example_pkg ?R w =
      (Inr (built_preq ''alice'' m), called Called_collectParameters (storage w) w)" for w
    using built_alice by blast
  let ?p = "built_preq ''alice'' m"
  have f: "clientKey ?p = ''alice''" "nonce ?p = ''n1''" "timestamp ?p = 1"
    "signatureMethod ?p = ''PLAINTEXT''" "signatureToVerify ?p = ''good''"
    by (simp_all add: built_preq_def)
  let ?w1 = "called Called_collectParameters (storage example_world) example_world"
  have N: "ValidateNonce example_storage (clientKey ?p) (nonce ?p) (timestamp ?p) ?R (storage ?w1)
             = (None, [''n1''])"
    by (simp add: f example_storage_def called_def example_world_def)
  have G: "GetSigner example_storage (clientKey ?p) (signatureMethod ?p) ?R [''n1'']
             = ((Some (fixed_Signer ''good''), None), [''n1''])"
    by (simp add: f example_storage_def)
  have C: "checkSignature example_pkg ?p (Some (fixed_Signer ''good''))
             (called (Called_GetSigner (clientKey ?p) (signatureMethod ?p)) [''n1'']
               (called (Called_ValidateNonce (clientKey ?p) (nonce ?p) (timestamp ?p)) [''n1''] ?w1))
           = (Returns None,
              \<lparr>storage = [''n1''],
               calls = [Called_collectParameters, Called_ValidateNonce ''alice'' ''n1'' 1,
                        Called_GetSigner ''alice'' ''PLAINTEXT'', Called_signatureBase,
                        Called_Sign [] ''GET&http://example.com/'']\<rparr>)"
    by (simp add: checkSignature_def f example_signatureBase called_def example_world_def
        fixed_Signer_def)
  have 1: "ValidateSignature example_pkg ?R example_storage example_world =
     (Returns None,
      \<lparr>storage = [''n1''],
       calls = [Called_collectParameters, Called_ValidateNonce ''alice'' ''n1'' 1,
                Called_GetSigner ''alice'' ''PLAINTEXT'', Called_signatureBase,
                Called_Sign [] ''GET&http://example.com/'']\<rparr>)"
    using ValidateSignature_precedence [OF b N refl G refl C] by simp
  let ?v1 = "called Called_collectParameters (storage replayed_world) replayed_world"
  have N': "ValidateNonce example_storage (clientKey ?p) (nonce ?p) (timestamp ?p) ?R (storage ?v1)
             = (Some (Errorf ''nonce already used'' []), [''n1''])"
    by (simp add: f example_storage_def called_def replayed_world_def)
  obtain res w4 where C': "checkSignature example_pkg ?p (Some (fixed_Signer ''good''))
             (called (Called_GetSigner (clientKey ?p) (signatureMethod ?p)) [''n1'']
               (called (Called_ValidateNonce (clientKey ?p) (nonce ?p) (timestamp ?p)) [''n1''] ?v1))
           = (res, w4)"
    by (metis prod.exhaust)
  have 2: "ValidateSignature example_pkg ?R example_storage replayed_world =
     (Returns (Some (Errorf ''nonce already used'' [])),
      \<lparr>storage = [''n1''],
       calls = [Called_collectParameters, Called_ValidateNonce ''alice'' ''n1'' 1]\<rparr>)"
    using ValidateSignature_precedence [OF b N' refl G refl C', of "Errorf ''nonce already used'' []"]
    by (simp add: f called_def replayed_world_def)
  from 1 2 show ?thesis by simp
qed

text \<open>
  Claim C1, as amended. When the Provider Request is built, the nonce is accepted and
  \<^verbatim>\<open>GetSigner\<close> returns an error, \<^verbatim>\<open>checkSignature\<close> still runs on the Signer that
  \<^verbatim>\<open>GetSigner\<close> returned (for a Signer that is not nil, the base string is built and
  \<^verbatim>\<open>Sign\<close> is called), and \<^verbatim>\<open>ValidateSignature\<close> then returns the error of
  \<^verbatim>\<open>GetSigner\<close> itself, whatever the outcome of \<^verbatim>\<open>checkSignature\<close>.
\<close>

theorem ValidateSignature_invalid_client:
  assumes "newProviderRequest D r w = (Inr preq, w1)"
      and "ValidateNonce v (clientKey preq) (nonce preq) (timestamp preq) r (storage w1) = (None, s2)"
      and "GetSigner v (clientKey preq) (signatureMethod preq) r s2 = ((signer, Some e), s3)"
      and "w3 = called (Called_GetSigner (clientKey preq) (signatureMethod preq)) s3
                  (called (Called_ValidateNonce (clientKey preq) (nonce preq) (timestamp preq)) s2 w1)"
  shows "ValidateSignature D r v w = (Returns (Some e), snd (checkSignature D preq signer w3))
       \<and> (signer = None \<longrightarrow> snd (ValidateSignature D r v w) = w3)
       \<and> (signer \<noteq> None \<longrightarrow>
            calls (snd (ValidateSignature D r v w)) =
              calls w3 @ [Called_signatureBase,
                          Called_Sign [] (signatureBase D (req preq) (oauthParams preq))])"
proof -
  obtain invalidSignature w4 where
    cs: "checkSignature D preq signer w3 = (invalidSignature, w4)"
    by (metis prod.exhaust)
  have 1: "ValidateSignature D r v w = (Returns (Some e), snd (checkSignature D preq signer w3))"
    using ValidateSignature_checked [OF assms(1,2,3), of invalidSignature w4] cs assms(4)
    by simp
  have 2: "signer = None \<longrightarrow> snd (ValidateSignature D r v w) = w3"
    using 1 by (simp add: checkSignature_nil)
  have 3: "signer \<noteq> None \<longrightarrow>
            calls (snd (ValidateSignature D r v w)) =
              calls w3 @ [Called_signatureBase,
                          Called_Sign [] (signatureBase D (req preq) (oauthParams preq))]"
  proof
    assume "signer \<noteq> None"
    then obtain sign where s: "signer = Some sign" by auto
    obtain signature err s' where
      sg: "sign [] (signatureBase D (req preq) (oauthParams preq)) (storage w3) = ((signature, err), s')"
      by (metis prod.exhaust)
    from checkSignature_signer [where sign = sign and D = D and r = preq and w = w3, OF sg] 1 s
    show "calls (snd (ValidateSignature D r v w)) =
              calls w3 @ [Called_signatureBase,
                          Called_Sign [] (signatureBase D (req preq) (oauthParams preq))]"
      by simp
  qed
  from 1 2 3 show ?thesis by blast
qed

text \<open>
  The client \<^verbatim>\<open>bob\<close> is unknown to the store, which returns a Signer and an error:
  the signature is computed, and the error returned is the one of the store.
\<close>

theorem ValidateSignature_invalid_client_witness:
  "ValidateSignature example_pkg (request_signed ''bob'' ''1'') example_storage example_world =
     (Returns (Some (Errorf ''unknown client'' [])),
      \<lparr>storage = [''n1''],
       calls = [Called_collectParameters, Called_ValidateNonce ''bob'' ''n1'' 1,
                Called_GetSigner ''bob'' ''PLAINTEXT'', Called_signatureBase,
                Called_Sign [] ''GET&http://example.com/'']\<rparr>)"
proof -
  let ?R = "request_signed ''bob'' ''1''"
  obtain m where b: "newProviderRequest example_pkg ?R w =
      (Inr (built_preq ''bob'' m), called Called_collectParameters (storage w) w)" for w
    using built_bob by blast
  let ?p = "built_preq ''bob'' m"
  have f: "clientKey ?p = ''bob''" "nonce ?p = ''n1''" "timestamp ?p = 1"
    "signatureMethod ?p = ''PLAINTEXT''" "signatureToVerify ?p = ''good''"
    by (simp_all add: built_preq_def)
  let ?w1 = "called Called_collectParameters (storage example_world) example_world"
  have N: "ValidateNonce example_storage (clientKey ?p) (nonce ?p) (timestamp ?p) ?R (storage ?w1)
             = (None, [''n1''])"
    by (simp add: f example_storage_def called_def example_world_def)
  have G: "GetSigner example_storage (clientKey ?p) (signatureMethod ?p) ?R [''n1'']
             = ((Some (fixed_Signer ''dummy''), Some (Errorf ''unknown client'' [])), [''n1''])"
    by (simp add: f example_storage_def)
  from ValidateSignature_invalid_client [OF b N G refl, THEN conjunct1]
  show ?thesis
    by (simp add: checkSignature_def f example_signatureBase called_def example_world_def
        fixed_Signer_def)
qed

text \<open>
  The claim as stated fails there: the error returned is not \<^verbatim>\<open>errSignatureMismatch\<close>.
\<close>

theorem ValidateSignature_invalid_client_counterexample:
  "snd (fst (GetSigner example_storage ''bob'' ''PLAINTEXT'' (request_signed ''bob'' ''1'') [''n1'']))
     = Some (Errorf ''unknown client'' [])
   \<and> fst (ValidateSignature example_pkg (request_signed ''bob'' ''1'') example_storage example_world)
     = Returns (Some (Errorf ''unknown client'' []))
   \<and> fst (ValidateSignature example_pkg (request_signed ''bob'' ''1'') example_storage example_world)
     \<noteq> Returns (Some errSignatureMismatch)"
  by (simp add: model_defs example_defs request_signed_def)

end
